theory Spec2Isabelle
  imports Complex_Main
begin

section \<open>Errors and asynchronous programs\<close>

text \<open>
  A thrown JavaScript value is an \<open>error\<close>; an \<open>async\<close> function is a program over an
  explicit state that settles with \<open>Inl\<close> (rejected) or \<open>Inr\<close> (resolved).
\<close>

datatype error =
    Error string
  | TypeError string

type_synonym ('a, 's) prog = "'s \<Rightarrow> (error + 'a) \<times> 's"

definition resolve :: "'a \<Rightarrow> ('a, 's) prog" where
  "resolve v = (\<lambda>s. (Inr v, s))"

definition reject :: "error \<Rightarrow> ('a, 's) prog" where
  "reject e = (\<lambda>s. (Inl e, s))"

definition andThen :: "('a, 's) prog \<Rightarrow> ('a \<Rightarrow> ('b, 's) prog) \<Rightarrow> ('b, 's) prog" where
  "andThen p f = (\<lambda>s. case p s of (Inl e, s') \<Rightarrow> (Inl e, s') | (Inr v, s') \<Rightarrow> f v s')"

definition tryCatch :: "('a, 's) prog \<Rightarrow> (error \<Rightarrow> ('a, 's) prog) \<Rightarrow> ('a, 's) prog" where
  "tryCatch p h = (\<lambda>s. case p s of (Inl e, s') \<Rightarrow> h e s' | (Inr v, s') \<Rightarrow> (Inr v, s'))"

definition settled :: "(error + 'a) \<Rightarrow> ('a, 's) prog" where
  "settled r = (\<lambda>s. (r, s))"

section \<open>BaseAIService.callLLM (src/lib/services/ai/core/BaseAIService.ts)\<close>

datatype Role = System | User | Assistant

record Message =
  role :: Role
  content :: string

record ChatRequest =
  req_model :: string
  req_messages :: "Message list"
  req_temperature :: real
  req_maxTokens :: nat
  req_extraBody :: "(string \<times> string) list option"
  req_signal :: "bool option"

record ChatResponse =
  resp_content :: string

text \<open>
  \<open>provider.generateResponse\<close> is the network: its answer may differ from one request to
  the next, so the provider is a function of the number of requests it has received before
  and of the request. The state of a call records the requests sent and the lines logged.
\<close>

type_synonym OpenAIProvider = "nat \<Rightarrow> ChatRequest \<Rightarrow> error + ChatResponse"

record net =
  sent :: "ChatRequest list"
  logged :: "(string \<times> string) list"

definition generateResponse :: "OpenAIProvider \<Rightarrow> ChatRequest \<Rightarrow> (ChatResponse, net) prog" where
  "generateResponse provider request =
     (\<lambda>s. (provider (length (sent s)) request, s\<lparr>sent := sent s @ [request]\<rparr>))"

text \<open>
  \<open>createLogger\<close> is not in the sources: \<open>createLogger(prefix)\<close> is taken to give a logger
  that records a line and does not throw.
\<close>

definition log :: "string \<Rightarrow> string \<Rightarrow> (unit, net) prog" where
  "log prefix line = (\<lambda>s. (Inr (), s\<lparr>logged := logged s @ [(prefix, line)]\<rparr>))"

record GenerationPreset =
  preset_model :: string
  preset_temperature :: real
  preset_maxTokens :: nat

record PresetOverride =
  override_model :: "string option"
  override_temperature :: "real option"
  override_maxTokens :: "nat option"

record BaseAIService =
  provider :: OpenAIProvider
  preset :: GenerationPreset
  settingsOverride :: "PresetOverride option"
  extraBody :: "(string \<times> string) list option"

text \<open>The getters: \<open>this.settingsOverride?.x ?? this.preset.x\<close>.\<close>

definition nullish :: "'a option \<Rightarrow> 'a \<Rightarrow> 'a" where
  "nullish v d = (case v of None \<Rightarrow> d | Some x \<Rightarrow> x)"

definition model :: "BaseAIService \<Rightarrow> string" where
  "model this = nullish (Option.bind (settingsOverride this) override_model) (preset_model (preset this))"

definition temperature :: "BaseAIService \<Rightarrow> real" where
  "temperature this =
     nullish (Option.bind (settingsOverride this) override_temperature) (preset_temperature (preset this))"

definition maxTokens :: "BaseAIService \<Rightarrow> nat" where
  "maxTokens this =
     nullish (Option.bind (settingsOverride this) override_maxTokens) (preset_maxTokens (preset this))"

text \<open>
  What a call of \<open>parseResponse\<close> hands back when it does not throw: a value, or (the
  result type \<open>T\<close> is unconstrained) a promise, which settles later with a value or a
  rejection. \<open>Inl\<close> of \<open>parseResponse\<close> is a synchronous throw. \<open>fallbackResult\<close> is taken
  as a plain value.
\<close>

datatype 'a Returned = Value 'a | Promise "error + 'a"

record 'a CallLLMOptions =
  systemPrompt :: string
  userPrompt :: string
  parseResponse :: "string \<Rightarrow> error + 'a Returned"
  fallbackResult :: 'a
  logPrefix :: string
  opt_temperature :: "real option"
  opt_maxTokens :: "nat option"
  signal :: "bool option"
  additionalMessages :: "Message list option"

text \<open>
  \<open>return x\<close> in an \<open>async\<close> function resolves the function's promise with \<open>x\<close>; when
  \<open>x\<close> is itself a promise the function's promise takes its outcome. A \<open>return\<close> inside
  \<open>try\<close> that is not awaited has left the \<open>try\<close> by then: the \<open>catch\<close> sees synchronous
  throws only.
\<close>

definition returning :: "('a Returned, 's) prog \<Rightarrow> ('a, 's) prog" where
  "returning p =
     andThen p (\<lambda>x. settled (case x of Value v \<Rightarrow> Inr v | Promise outcome \<Rightarrow> outcome))"

definition callLLM :: "BaseAIService \<Rightarrow> 'a CallLLMOptions \<Rightarrow> ('a, net) prog" where
  "callLLM this options =
     returning (tryCatch
       (andThen (log (logPrefix options) ''Sending request...'') (\<lambda>_.
        let messages =
              [\<lparr>role = System, content = systemPrompt options\<rparr>]
              @ nullish (additionalMessages options) []
              @ [\<lparr>role = User, content = userPrompt options\<rparr>]
        in
        andThen (generateResponse (provider this)
                  \<lparr>req_model = model this,
                   req_messages = messages,
                   req_temperature = nullish (opt_temperature options) (temperature this),
                   req_maxTokens = nullish (opt_maxTokens options) (maxTokens this),
                   req_extraBody = extraBody this,
                   req_signal = signal options\<rparr>) (\<lambda>response.
        andThen (log (logPrefix options) ''Response received'') (\<lambda>_.
        settled (parseResponse options (resp_content response))))))
       (\<lambda>error. andThen (log (logPrefix options) ''Request failed'') (\<lambda>_.
        resolve (Value (fallbackResult options)))))"

text \<open>The request that \<open>callLLM\<close> builds for its options.\<close>

definition requestOf :: "BaseAIService \<Rightarrow> 'a CallLLMOptions \<Rightarrow> ChatRequest" where
  "requestOf this options =
     \<lparr>req_model = model this,
      req_messages = [\<lparr>role = System, content = systemPrompt options\<rparr>]
                     @ nullish (additionalMessages options) []
                     @ [\<lparr>role = User, content = userPrompt options\<rparr>],
      req_temperature = nullish (opt_temperature options) (temperature this),
      req_maxTokens = nullish (opt_maxTokens options) (maxTokens this),
      req_extraBody = extraBody this,
      req_signal = signal options\<rparr>"

section \<open>Memory module: data (src/design.md, 3.1 and 7.2)\<close>

record Chapter =
  chapter_id :: string
  number :: nat
  startMessageId :: string
  endMessageId :: string
  messageCount :: nat
  summary :: string
  fullContent :: string
  createdAt :: nat
  chapter_keywords :: "string list"
  characters :: "string list"
  locations :: "string list"
  plotThreads :: "string list"
  emotionalTone :: string

record ChapterMetadata =
  meta_keywords :: "string list"
  meta_characters :: "string list"
  meta_locations :: "string list"
  meta_plotThreads :: "string list"
  meta_emotionalTone :: string

text \<open>A message of the story transcript (\<open>interface Message\<close> of 7.2).\<close>

record StoryMessage =
  message_id :: string
  message_role :: Role
  message_content :: string

datatype Mode = Static | Agentic | Auto

text \<open>
  The retrieval settings the module reads from \<open>this.config\<close> (\<open>mode\<close>,
  \<open>agenticThreshold\<close>, \<open>maxAgentIterations\<close>) are those of \<open>interface RetrievalConfig\<close>
  (3.1.4). The numbers are counts and are taken as natural numbers.
\<close>

record RetrievalConfig =
  mode :: Mode
  maxQueriesPerTurn :: nat
  maxChaptersPerQuery :: nat
  maxAgentIterations :: nat
  agenticThreshold :: nat

record MemoryConfig =
  chapterThreshold :: nat
  chapterBuffer :: nat
  autoSummarize :: bool
  enableRetrieval :: bool
  maxChaptersPerRetrieval :: nat

record ChapterPreview =
  preview_number :: nat
  preview_summary :: string
  preview_start :: string
  preview_end :: string
  preview_characters :: "string list"
  preview_locations :: "string list"

text \<open>
  What a memory tool returns: the chapter list, \<open>{ chapterNumber, question, answer }\<close>,
  \<open>{ range: { start, end }, question, answer }\<close>, or a chapter summary; \<open>OtherValue\<close> is
  what a call through \<open>this.tools[name]\<close> gives when the name is none of the four tools
  and yet callable (a method every object inherits, such as \<open>toString\<close>).
\<close>

datatype ToolResult =
    ChapterList "ChapterPreview list"
  | ChapterAnswer nat string string
  | RangeAnswer nat nat string string
  | ChapterSummary nat string "string list" "string list" "string list"
  | OtherValue string

record RetrievedContext =
  queriedChapters :: "ToolResult list"
  retrievalTimestamp :: nat

record Query =
  query_chapterNumber :: nat
  query_question :: string

record RetrievalDecision =
  queries :: "Query list"

text \<open>
  A tool call of the retrieval agent, by \<open>toolCall.name\<close> and \<open>toolCall.args\<close>.
  \<open>OtherTool name\<close> is a call whose name is no key of \<open>this.tools\<close>.
\<close>

datatype ToolCall =
    FinishRetrieval
  | ListChapters
  | QueryChapter nat string
  | QueryChapters nat nat string
  | GetChapterSummary nat
  | OtherTool string

record AgentResponse =
  agent_content :: string
  toolCalls :: "ToolCall list"

text \<open>
  The agent's conversation. A tool message carries the tool's result, which the source
  passes as \<open>JSON.stringify(result)\<close>.
\<close>

datatype AgentMessage =
    UserMessage string
  | AssistantMessage string
  | ToolMessage ToolResult

record EndpointSelection =
  selected_endMessageId :: string
  selected_reason :: string
  selected_title :: string

text \<open>
  The classification event as the handler reads it: \<open>event.chapterAnalysis\<close> with its
  \<open>shouldCreateChapter\<close> flag and the \<open>suggestedEndpoint\<close> handed to \<open>createChapter\<close>.
\<close>

record ChapterAnalysis =
  shouldCreateChapter :: bool
  suggestedEndpoint :: EndpointSelection

record ClassificationEvent =
  chapterAnalysis :: ChapterAnalysis

record UserInputEvent =
  text_of :: string

datatype Event =
    ContextReady "RetrievedContext option" string
  | ChapterCreated Chapter

section \<open>Memory module: the world it runs in\<close>

text \<open>
  The state the module reads and writes: the chapter store, the transcript, the event
  bus, the clock, the list of model calls issued so far (one entry per call, in order; a
  range query with the text it was given), and the chapters handed to \<open>saveChapter\<close> so
  far.
\<close>

datatype ModelCall =
    DecideCall
  | QueryCall nat
  | RangeQueryCall string
  | AgentCall
  | SummarizeCall
  | ExtractCall

record world =
  chapters :: "Chapter list"
  transcript :: "StoryMessage list"
  calls :: "ModelCall list"
  emitted :: "Event list"
  clock :: nat
  saveRequests :: "Chapter list"

text \<open>
  The collaborators the module's code calls and the sources do not contain: the model
  calls (\<open>this.decideRetrieval\<close>, \<open>this.executeQuery\<close>, \<open>this.executeRangeQuery\<close>,
  \<open>this.callRetrievalAgent\<close>, \<open>this.summarizeChapter\<close>, \<open>this.extractMetadata\<close>) and
  the pure helpers (\<open>this.buildAgentPrompt\<close>, \<open>formatMessages\<close>, \<open>generateId\<close>). They are
  parameters. A model call may answer differently each time it is asked, so each takes
  the number of model calls issued before it; \<open>Inl\<close> is a call that failed.
  Three more things the sources leave open are parameters as well: what the store behind
  \<open>saveChapter\<close> does with the chapter it is handed, given the world (the chapters it
  holds afterwards, or a refusal); which of several rejected promises settles first
  (\<open>firstToReject\<close>, an index into the rejections); and what a call through
  \<open>this.tools[name]\<close> gives for a name that is none of the four tools (\<open>otherTool\<close>: a
  TypeError for a name the object does not have, a value for an inherited method).
\<close>

record env =
  decideRetrieval :: "nat \<Rightarrow> string \<Rightarrow> Chapter list \<Rightarrow> error + RetrievalDecision"
  executeQuery :: "nat \<Rightarrow> Chapter \<Rightarrow> string \<Rightarrow> error + string"
  executeRangeQuery :: "nat \<Rightarrow> string \<Rightarrow> string \<Rightarrow> error + string"
  callRetrievalAgent :: "nat \<Rightarrow> AgentMessage list \<Rightarrow> error + AgentResponse"
  summarizeChapter :: "nat \<Rightarrow> StoryMessage list \<Rightarrow> error + string"
  extractMetadata :: "nat \<Rightarrow> StoryMessage list \<Rightarrow> string \<Rightarrow> error + ChapterMetadata"
  buildAgentPrompt :: "string \<Rightarrow> Chapter list \<Rightarrow> string"
  formatMessages :: "StoryMessage list \<Rightarrow> string"
  generateId :: "nat \<Rightarrow> string"
  storeChapter :: "Chapter \<Rightarrow> world \<Rightarrow> error + Chapter list"
  firstToReject :: "error list \<Rightarrow> nat"
  otherTool :: "string \<Rightarrow> error + ToolResult"

definition aiCall :: "ModelCall \<Rightarrow> (nat \<Rightarrow> error + 'a) \<Rightarrow> ('a, world) prog" where
  "aiCall kind f = (\<lambda>w. (f (length (calls w)), w\<lparr>calls := calls w @ [kind]\<rparr>))"

definition reading :: "(world \<Rightarrow> 'a) \<Rightarrow> ('a, world) prog" where
  "reading f = (\<lambda>w. (Inr (f w), w))"

definition emit :: "Event \<Rightarrow> (unit, world) prog" where
  "emit ev = (\<lambda>w. (Inr (), w\<lparr>emitted := emitted w @ [ev]\<rparr>))"

text \<open>
  The store accessors are not in the sources; each is modelled as its name and its use
  in the module say: \<open>getChapters\<close> lists the store in order, \<open>getChapter\<close> finds a chapter
  by number, \<open>getChaptersInRange\<close> keeps the chapters numbered within the bounds,
  \<open>getLastChapterEnd\<close> is the last chapter's \<open>endMessageId\<close> (nothing for an empty store),
  and \<open>getMessagesSinceLastChapter\<close> gives the messages after that one up to and including
  the endpoint. \<open>saveChapter\<close> hands the chapter to the store, whose decision is the
  parameter \<open>storeChapter\<close>; the world records that the chapter was handed over.
\<close>

definition getChapters :: "world \<Rightarrow> Chapter list" where
  "getChapters w = chapters w"

definition getChapter :: "nat \<Rightarrow> world \<Rightarrow> Chapter option" where
  "getChapter n w = find (\<lambda>ch. number ch = n) (chapters w)"

definition getChaptersInRange :: "nat \<Rightarrow> nat \<Rightarrow> world \<Rightarrow> Chapter list" where
  "getChaptersInRange startChapter endChapter w =
     filter (\<lambda>ch. startChapter \<le> number ch \<and> number ch \<le> endChapter) (chapters w)"

definition getLastChapterEnd :: "world \<Rightarrow> string option" where
  "getLastChapterEnd w = (if chapters w = [] then None else Some (endMessageId (last (chapters w))))"

fun dropThrough :: "string \<Rightarrow> StoryMessage list \<Rightarrow> StoryMessage list" where
  "dropThrough i [] = []"
| "dropThrough i (m # ms) = (if message_id m = i then ms else dropThrough i ms)"

fun takeThrough :: "string \<Rightarrow> StoryMessage list \<Rightarrow> StoryMessage list" where
  "takeThrough i [] = []"
| "takeThrough i (m # ms) = (if message_id m = i then [m] else m # takeThrough i ms)"

definition messagesSinceLastChapter :: "world \<Rightarrow> StoryMessage list" where
  "messagesSinceLastChapter w =
     (case getLastChapterEnd w of None \<Rightarrow> transcript w | Some e \<Rightarrow> dropThrough e (transcript w))"

definition getMessagesSinceLastChapter :: "string \<Rightarrow> world \<Rightarrow> StoryMessage list" where
  "getMessagesSinceLastChapter endId w = takeThrough endId (messagesSinceLastChapter w)"

definition saveChapter :: "env \<Rightarrow> Chapter \<Rightarrow> (unit, world) prog" where
  "saveChapter env chapter =
     (\<lambda>w. case storeChapter env chapter w of
             Inl e \<Rightarrow> (Inl e, w\<lparr>saveRequests := saveRequests w @ [chapter]\<rparr>)
           | Inr stored \<Rightarrow>
               (Inr (), w\<lparr>chapters := stored, saveRequests := saveRequests w @ [chapter]\<rparr>))"

section \<open>Memory module: text helpers\<close>

definition digitChar :: "nat \<Rightarrow> char" where
  "digitChar d = char_of (48 + d)"

fun showNat :: "nat \<Rightarrow> string" where
  "showNat n = (if n < 10 then [digitChar n] else showNat (n div 10) @ [digitChar (n mod 10)])"

declare showNat.simps [simp del]

fun joinWith :: "string \<Rightarrow> string list \<Rightarrow> string" where
  "joinWith sep [] = []"
| "joinWith sep [x] = x"
| "joinWith sep (x # y # ys) = x @ sep @ joinWith sep (y # ys)"

definition newline :: string where
  "newline = [CHR 0x0A]"

section \<open>Memory module: tools (Appendix A.1, MemoryModule.tools)\<close>

definition preview :: "Chapter \<Rightarrow> ChapterPreview" where
  "preview ch =
     \<lparr>preview_number = number ch,
      preview_summary = summary ch,
      preview_start = startMessageId ch,
      preview_end = endMessageId ch,
      preview_characters = characters ch,
      preview_locations = locations ch\<rparr>"

definition list_chapters :: "(ToolResult, world) prog" where
  "list_chapters = reading (\<lambda>w. ChapterList (map preview (getChapters w)))"

definition notFound :: "nat \<Rightarrow> error" where
  "notFound chapterNumber = Error (''Chapter '' @ showNat chapterNumber @ '' not found'')"

definition query_chapter :: "env \<Rightarrow> nat \<Rightarrow> string \<Rightarrow> (ToolResult, world) prog" where
  "query_chapter env chapterNumber question =
     andThen (reading (getChapter chapterNumber)) (\<lambda>found.
       case found of
         None \<Rightarrow> reject (notFound chapterNumber)
       | Some chapter \<Rightarrow>
           andThen (aiCall (QueryCall chapterNumber) (\<lambda>k. executeQuery env k chapter question)) (\<lambda>answer.
           resolve (ChapterAnswer chapterNumber question answer)))"

definition chapterBlock :: "Chapter \<Rightarrow> string" where
  "chapterBlock ch = ''=== Chapter '' @ showNat (number ch) @ '' ==='' @ newline @ fullContent ch"

definition combinedContent :: "Chapter list \<Rightarrow> string" where
  "combinedContent chs = joinWith (newline @ newline) (map chapterBlock chs)"

definition query_chapters :: "env \<Rightarrow> nat \<Rightarrow> nat \<Rightarrow> string \<Rightarrow> (ToolResult, world) prog" where
  "query_chapters env startChapter endChapter question =
     andThen (reading (getChaptersInRange startChapter endChapter)) (\<lambda>chs.
     andThen (aiCall (RangeQueryCall (combinedContent chs))
                (\<lambda>k. executeRangeQuery env k (combinedContent chs) question)) (\<lambda>answer.
     resolve (RangeAnswer startChapter endChapter question answer)))"

definition get_chapter_summary :: "nat \<Rightarrow> (ToolResult, world) prog" where
  "get_chapter_summary chapterNumber =
     andThen (reading (getChapter chapterNumber)) (\<lambda>found.
       case found of
         None \<Rightarrow> reject (notFound chapterNumber)
       | Some chapter \<Rightarrow>
           resolve (ChapterSummary (number chapter) (summary chapter) (characters chapter)
                      (locations chapter) (plotThreads chapter)))"

text \<open>
  \<open>this.tools[toolCall.name](toolCall.args)\<close>. \<open>finish_retrieval\<close> is no key of
  \<open>this.tools\<close> and no inherited method: the lookup gives \<open>undefined\<close> and the call is a
  TypeError (the loop never gets there: it tests for that name first). Any other name
  that is none of the four tools is answered by \<open>otherTool\<close>.
\<close>

definition callTool :: "env \<Rightarrow> ToolCall \<Rightarrow> (ToolResult, world) prog" where
  "callTool env toolCall =
     (case toolCall of
        ListChapters \<Rightarrow> list_chapters
      | QueryChapter chapterNumber question \<Rightarrow> query_chapter env chapterNumber question
      | QueryChapters startChapter endChapter question \<Rightarrow>
          query_chapters env startChapter endChapter question
      | GetChapterSummary chapterNumber \<Rightarrow> get_chapter_summary chapterNumber
      | FinishRetrieval \<Rightarrow> reject (TypeError ''this.tools[toolCall.name] is not a function'')
      | OtherTool name \<Rightarrow> settled (otherTool env name))"

section \<open>Memory module: retrieval (MemoryModule.handleUserInput and its strategies)\<close>

text \<open>
  \<open>Promise.all\<close> over promises that are all started first: every program runs, in list
  order (the calls are issued when the promises are created). The outcome is the list of
  values when none rejects; otherwise it is the rejection that settles first, which is
  one of the rejections and is chosen by \<open>firstToReject\<close>.
\<close>

fun settleAll :: "('a, 's) prog list \<Rightarrow> 's \<Rightarrow> (error + 'a) list \<times> 's" where
  "settleAll [] s = ([], s)"
| "settleAll (p # ps) s =
     (case p s of (r, s') \<Rightarrow> (case settleAll ps s' of (rs, s'') \<Rightarrow> (r # rs, s'')))"

fun rejections :: "(error + 'a) list \<Rightarrow> error list" where
  "rejections [] = []"
| "rejections (Inl e # rs) = e # rejections rs"
| "rejections (Inr v # rs) = rejections rs"

fun fulfilments :: "(error + 'a) list \<Rightarrow> 'a list" where
  "fulfilments [] = []"
| "fulfilments (Inl e # rs) = fulfilments rs"
| "fulfilments (Inr v # rs) = v # fulfilments rs"

definition allOrRejection :: "(error list \<Rightarrow> nat) \<Rightarrow> (error + 'a) list \<Rightarrow> error + 'a list" where
  "allOrRejection race rs =
     (case rejections rs of
        [] \<Rightarrow> Inr (fulfilments rs)
      | e # es \<Rightarrow> Inl ((e # es) ! (race (e # es) mod length (e # es))))"

definition promiseAll :: "(error list \<Rightarrow> nat) \<Rightarrow> ('a, 's) prog list \<Rightarrow> ('a list, 's) prog" where
  "promiseAll race ps = (\<lambda>s. case settleAll ps s of (rs, s') \<Rightarrow> (allOrRejection race rs, s'))"

definition staticRetrieval :: "env \<Rightarrow> string \<Rightarrow> Chapter list \<Rightarrow> (RetrievedContext, world) prog" where
  "staticRetrieval env userInput chs =
     andThen (aiCall DecideCall (\<lambda>k. decideRetrieval env k userInput chs)) (\<lambda>decision.
     andThen (promiseAll (firstToReject env)
                (map (\<lambda>q. query_chapter env (query_chapterNumber q) (query_question q))
                   (queries decision))) (\<lambda>results.
     andThen (reading clock) (\<lambda>now.
     resolve \<lparr>queriedChapters = results, retrievalTimestamp = now\<rparr>)))"

record AgentLoop =
  complete :: bool
  gatheredContext :: "ToolResult list"
  messages :: "AgentMessage list"

text \<open>The \<open>for (const toolCall of response.toolCalls)\<close> loop of one iteration.\<close>

fun runToolCalls :: "env \<Rightarrow> string \<Rightarrow> ToolCall list \<Rightarrow> AgentLoop \<Rightarrow> (AgentLoop, world) prog" where
  "runToolCalls env responseContent [] st = resolve st"
| "runToolCalls env responseContent (toolCall # rest) st =
     (if toolCall = FinishRetrieval then resolve (st\<lparr>complete := True\<rparr>)
      else andThen (callTool env toolCall) (\<lambda>result.
             runToolCalls env responseContent rest
               (st\<lparr>gatheredContext := gatheredContext st @ [result],
                   messages := messages st @ [AssistantMessage responseContent, ToolMessage result]\<rparr>)))"

text \<open>
  The \<open>while (!complete && iterations < this.config.maxAgentIterations)\<close> loop. It gives
  back the final \<open>iterations\<close> with the loop's variables.
\<close>

function agentLoop :: "env \<Rightarrow> nat \<Rightarrow> nat \<Rightarrow> AgentLoop \<Rightarrow> world \<Rightarrow> (error + nat \<times> AgentLoop) \<times> world" where
  "agentLoop env cap iterations st w =
     (if \<not> complete st \<and> iterations < cap then
        (case aiCall AgentCall (\<lambda>k. callRetrievalAgent env k (messages st)) w of
           (Inl e, w1) \<Rightarrow> (Inl e, w1)
         | (Inr response, w1) \<Rightarrow>
             (case runToolCalls env (agent_content response) (toolCalls response) st w1 of
                (Inl e, w2) \<Rightarrow> (Inl e, w2)
              | (Inr st', w2) \<Rightarrow> agentLoop env cap (Suc iterations) st' w2))
      else (Inr (iterations, st), w))"
  by pat_completeness auto
termination
  by (relation "measure (\<lambda>(env, cap, iterations, st, w). cap - iterations)") auto

declare agentLoop.simps [simp del]

text \<open>The loop's variables as \<open>agenticRetrieval\<close> initialises them.\<close>

definition startOfLoop :: "env \<Rightarrow> string \<Rightarrow> Chapter list \<Rightarrow> AgentLoop" where
  "startOfLoop env userInput chs =
     \<lparr>complete = False, gatheredContext = [],
      messages = [UserMessage (buildAgentPrompt env userInput chs)]\<rparr>"

definition agenticRetrieval :: "env \<Rightarrow> RetrievalConfig \<Rightarrow> string \<Rightarrow> Chapter list \<Rightarrow> (RetrievedContext, world) prog" where
  "agenticRetrieval env config userInput chs =
     andThen (agentLoop env (maxAgentIterations config) 0 (startOfLoop env userInput chs))
       (\<lambda>(iterations, st).
     andThen (reading clock) (\<lambda>now.
     resolve \<lparr>queriedChapters = gatheredContext st, retrievalTimestamp = now\<rparr>))"

definition useAgentic :: "RetrievalConfig \<Rightarrow> Chapter list \<Rightarrow> bool" where
  "useAgentic config chs =
     (mode config = Agentic \<or> (mode config = Auto \<and> length chs > agenticThreshold config))"

definition handleUserInput :: "env \<Rightarrow> RetrievalConfig \<Rightarrow> UserInputEvent \<Rightarrow> (unit, world) prog" where
  "handleUserInput env config event =
     andThen (reading getChapters) (\<lambda>chs.
       if length chs = 0 then emit (ContextReady None (text_of event))
       else
         andThen (if useAgentic config chs
                  then agenticRetrieval env config (text_of event) chs
                  else staticRetrieval env (text_of event) chs) (\<lambda>context.
         emit (ContextReady (Some context) (text_of event))))"

section \<open>Memory module: chapter creation (MemoryModule.handleClassificationComplete)\<close>

text \<open>
  \<open>getLastChapterEnd() || messages[0].id\<close>: the first operand when it is truthy (a
  non-empty string), else the first message's id, a TypeError when there is no message.
\<close>

definition chapterStart :: "string option \<Rightarrow> StoryMessage list \<Rightarrow> error + string" where
  "chapterStart lastEnd msgs =
     (case lastEnd of
        Some e \<Rightarrow> if e \<noteq> [] then Inr e
                  else (case msgs of [] \<Rightarrow> Inl (TypeError ''messages[0] is undefined'')
                        | m # _ \<Rightarrow> Inr (message_id m))
      | None \<Rightarrow> (case msgs of [] \<Rightarrow> Inl (TypeError ''messages[0] is undefined'')
                 | m # _ \<Rightarrow> Inr (message_id m)))"

definition createChapter :: "env \<Rightarrow> EndpointSelection \<Rightarrow> (Chapter, world) prog" where
  "createChapter env endpoint =
     andThen (reading (getMessagesSinceLastChapter (selected_endMessageId endpoint))) (\<lambda>msgs.
     andThen (aiCall SummarizeCall (\<lambda>k. summarizeChapter env k msgs)) (\<lambda>summaryText.
     andThen (aiCall ExtractCall (\<lambda>k. extractMetadata env k msgs summaryText)) (\<lambda>metadata.
     andThen (reading getChapters) (\<lambda>chs.
     andThen (reading getLastChapterEnd) (\<lambda>lastEnd.
     andThen (settled (chapterStart lastEnd msgs)) (\<lambda>start.
     andThen (reading clock) (\<lambda>now.
     let chapter =
           \<lparr>chapter_id = generateId env (length chs),
            number = length chs + 1,
            startMessageId = start,
            endMessageId = selected_endMessageId endpoint,
            messageCount = length msgs,
            summary = summaryText,
            fullContent = formatMessages env msgs,
            createdAt = now,
            chapter_keywords = meta_keywords metadata,
            characters = meta_characters metadata,
            locations = meta_locations metadata,
            plotThreads = meta_plotThreads metadata,
            emotionalTone = meta_emotionalTone metadata\<rparr>
     in
     andThen (saveChapter env chapter) (\<lambda>_.
     andThen (emit (ChapterCreated chapter)) (\<lambda>_.
     resolve chapter)))))))))"

definition handleClassificationComplete :: "env \<Rightarrow> ClassificationEvent \<Rightarrow> (unit, world) prog" where
  "handleClassificationComplete env event =
     (if \<not> shouldCreateChapter (chapterAnalysis event) then resolve ()
      else andThen (createChapter env (suggestedEndpoint (chapterAnalysis event))) (\<lambda>_. resolve ()))"

section \<open>What the statements observe\<close>

text \<open>
  The outcomes of the queries of a retrieval decision, issued in order from a world, and
  the model calls they make (one per query whose chapter exists; a query of a chapter
  that does not exist fails before any call); the number of calls to the retrieval agent a world has seen; the number of turns after the
  last chapter and the threshold rule of design.md 3.1.2
  (\<open>messagesSinceLastChapter >= N + X\<close>); whether the classification handler started
  chapter creation (the first thing \<open>createChapter\<close> does to the world is the summary
  call); and the chapter record \<open>createChapter\<close> builds.
\<close>

definition queryOutcomes :: "env \<Rightarrow> RetrievalDecision \<Rightarrow> world \<Rightarrow> (error + ToolResult) list" where
  "queryOutcomes env decision w =
     fst (settleAll
            (map (\<lambda>q. query_chapter env (query_chapterNumber q) (query_question q)) (queries decision)) w)"

definition issuedQueries :: "RetrievalDecision \<Rightarrow> world \<Rightarrow> ModelCall list" where
  "issuedQueries decision w =
     map QueryCall
       (filter (\<lambda>n. getChapter n w \<noteq> None) (map query_chapterNumber (queries decision)))"


definition unassignedTurnCount :: "world \<Rightarrow> nat" where
  "unassignedTurnCount w = length (messagesSinceLastChapter w)"

definition thresholdReached :: "MemoryConfig \<Rightarrow> world \<Rightarrow> bool" where
  "thresholdReached config w = (unassignedTurnCount w \<ge> chapterThreshold config + chapterBuffer config)"

definition defaultMemoryConfig :: MemoryConfig where
  "defaultMemoryConfig =
     \<lparr>chapterThreshold = 50, chapterBuffer = 10, autoSummarize = True,
      enableRetrieval = True, maxChaptersPerRetrieval = 3\<rparr>"

definition attemptsCreation :: "env \<Rightarrow> ClassificationEvent \<Rightarrow> world \<Rightarrow> bool" where
  "attemptsCreation env event w =
     (take (Suc (length (calls w))) (calls (snd (handleClassificationComplete env event w)))
        = calls w @ [SummarizeCall])"

definition newChapter :: "env \<Rightarrow> EndpointSelection \<Rightarrow> world \<Rightarrow> string \<Rightarrow> ChapterMetadata \<Rightarrow> string \<Rightarrow> Chapter" where
  "newChapter env endpoint w summaryText metadata start =
     \<lparr>chapter_id = generateId env (length (chapters w)),
      number = length (chapters w) + 1,
      startMessageId = start,
      endMessageId = selected_endMessageId endpoint,
      messageCount = length (getMessagesSinceLastChapter (selected_endMessageId endpoint) w),
      summary = summaryText,
      fullContent = formatMessages env (getMessagesSinceLastChapter (selected_endMessageId endpoint) w),
      createdAt = clock w,
      chapter_keywords = meta_keywords metadata,
      characters = meta_characters metadata,
      locations = meta_locations metadata,
      plotThreads = meta_plotThreads metadata,
      emotionalTone = meta_emotionalTone metadata\<rparr>"

section \<open>Chapter Index\<close>

text \<open>
  Modelled from the spec: the Chapter Index and its \<open>append\<close> are not in the sources (the
  module hands its chapter to \<open>saveChapter\<close>, which is absent). The spec has \<open>append\<close>
  accept a chapter when \<open>chapter.number == count + 1\<close> and its start turn immediately
  follows the prior chapter's end turn, and fail with OutOfSequence otherwise. Turns are
  taken by their sequence position.
\<close>

datatype IndexError = OutOfSequence | NotFound | InvalidRange

record ChapterEntry =
  entry_number :: nat
  startTurn :: nat
  endTurn :: nat

text \<open>
  Modelled from the spec: the check \<open>append\<close> makes (the Chapter Index is not in the
  sources): the number is count + 1 and the start turn is the one after the prior
  chapter's end turn; the first chapter has no prior chapter to follow.
\<close>

definition inSequence :: "ChapterEntry \<Rightarrow> ChapterEntry list \<Rightarrow> bool" where
  "inSequence chapter index =
     (entry_number chapter = length index + 1 \<and>
      (if index = [] then True else startTurn chapter = endTurn (last index) + 1))"

text \<open>
  Modelled from the spec: \<open>append\<close> of the Chapter Index (not in the sources), which gives
  its outcome and the index after it.
\<close>

definition appendChapter :: "ChapterEntry \<Rightarrow> ChapterEntry list \<Rightarrow> (IndexError + unit) \<times> ChapterEntry list" where
  "appendChapter chapter index =
     (if inSequence chapter index then (Inr (), index @ [chapter]) else (Inl OutOfSequence, index))"

text \<open>A sequence of append operations, each accepted or refused, from a given index.\<close>

fun appendAll :: "ChapterEntry list \<Rightarrow> ChapterEntry list \<Rightarrow> ChapterEntry list" where
  "appendAll [] index = index"
| "appendAll (chapter # rest) index = appendAll rest (snd (appendChapter chapter index))"

text \<open>The contiguity invariant: numbers 1 .. count, and each end turn followed at once by the next start turn.\<close>

definition numbered :: "ChapterEntry list \<Rightarrow> bool" where
  "numbered index = (\<forall>i < length index. entry_number (index ! i) = i + 1)"

definition adjoining :: "ChapterEntry list \<Rightarrow> bool" where
  "adjoining index =
     (\<forall>i. Suc i < length index \<longrightarrow> endTurn (index ! i) + 1 = startTurn (index ! Suc i))"

section \<open>Example inputs\<close>

definition flakyProvider :: OpenAIProvider where
  "flakyProvider n request =
     (if n = 0 then Inl (Error ''timeout'') else Inr \<lparr>resp_content = ''ok''\<rparr>)"

definition exampleService :: BaseAIService where
  "exampleService =
     \<lparr>provider = flakyProvider,
      preset = \<lparr>preset_model = ''m'', preset_temperature = 1, preset_maxTokens = 100\<rparr>,
      settingsOverride = None,
      extraBody = None\<rparr>"

definition exampleOptions :: "string CallLLMOptions" where
  "exampleOptions =
     \<lparr>systemPrompt = ''system'',
      userPrompt = ''user'',
      parseResponse = (\<lambda>content. Inr (Value content)),
      fallbackResult = ''fallback'',
      logPrefix = ''Memory'',
      opt_temperature = None,
      opt_maxTokens = None,
      signal = None,
      additionalMessages = None\<rparr>"

definition strictOptions :: "string CallLLMOptions" where
  "strictOptions = exampleOptions\<lparr>parseResponse := (\<lambda>content. Inl (Error ''parse''))\<rparr>"

text \<open>A parser that is \<open>async\<close>: it returns a promise, which rejects.\<close>

definition asyncOptions :: "string CallLLMOptions" where
  "asyncOptions = exampleOptions\<lparr>parseResponse := (\<lambda>content. Inr (Promise (Inl (Error ''parse''))))\<rparr>"

definition freshNet :: net where
  "freshNet = \<lparr>sent = [], logged = []\<rparr>"

definition exampleChapter :: "nat \<Rightarrow> Chapter" where
  "exampleChapter n =
     \<lparr>chapter_id = ''c'', number = n, startMessageId = ''a'', endMessageId = ''b'',
      messageCount = 1, summary = ''s'', fullContent = ''0123456789'', createdAt = 0,
      chapter_keywords = [], characters = [], locations = [], plotThreads = [],
      emotionalTone = ''calm''\<rparr>"

definition exampleQuery :: "nat \<Rightarrow> Query" where
  "exampleQuery n = \<lparr>query_chapterNumber = n, query_question = ''what happened''\<rparr>"

definition exampleDecision :: RetrievalDecision where
  "exampleDecision = \<lparr>queries = [exampleQuery 1, exampleQuery 2, exampleQuery 3]\<rparr>"

definition exampleMetadata :: ChapterMetadata where
  "exampleMetadata =
     \<lparr>meta_keywords = [], meta_characters = [], meta_locations = [],
      meta_plotThreads = [], meta_emotionalTone = ''calm''\<rparr>"

text \<open>
  An environment whose decision selects chapters 1, 2 and 3, whose query of chapter 2
  fails, whose agent asks about chapter 1 at every iteration and never finishes, and
  whose store keeps every chapter it is handed.
\<close>

definition exampleEnv :: env where
  "exampleEnv =
     \<lparr>decideRetrieval = (\<lambda>k userInput chs. Inr exampleDecision),
      executeQuery = (\<lambda>k ch question.
          if number ch = 2 then Inl (Error ''timeout'') else Inr ''answer''),
      executeRangeQuery = (\<lambda>k combined question. Inr ''answer''),
      callRetrievalAgent = (\<lambda>k msgs.
          Inr \<lparr>agent_content = ''looking'', toolCalls = [QueryChapter 1 ''what happened'']\<rparr>),
      summarizeChapter = (\<lambda>k msgs. Inr ''summary''),
      extractMetadata = (\<lambda>k msgs s. Inr exampleMetadata),
      buildAgentPrompt = (\<lambda>userInput chs. userInput),
      formatMessages = (\<lambda>msgs. concat (map message_content msgs)),
      generateId = (\<lambda>n. ''chapter''),
      storeChapter = (\<lambda>chapter w. Inr (chapters w @ [chapter])),
      firstToReject = (\<lambda>es. 0),
      otherTool = (\<lambda>name. Inl (TypeError ''this.tools[toolCall.name] is not a function''))\<rparr>"

text \<open>The same with every query answered, and with an agent that finishes in its second iteration.\<close>

definition reliableEnv :: env where
  "reliableEnv = exampleEnv\<lparr>executeQuery := (\<lambda>k ch question. Inr ''answer'')\<rparr>"

text \<open>Two failing queries (chapters 2 and 3), of which the second is the first to reject.\<close>

definition racingEnv :: env where
  "racingEnv =
     exampleEnv\<lparr>executeQuery := (\<lambda>k ch question.
                   if number ch = 1 then Inr ''answer''
                   else if number ch = 2 then Inl (Error ''timeout 2'')
                   else Inl (Error ''timeout 3'')),
                 firstToReject := (\<lambda>es. 1)\<rparr>"


definition exampleWorld :: world where
  "exampleWorld =
     \<lparr>chapters = [exampleChapter 1, exampleChapter 2, exampleChapter 3],
      transcript = [],
      calls = [],
      emitted = [],
      clock = 7,
      saveRequests = []\<rparr>"

definition exampleConfig :: RetrievalConfig where
  "exampleConfig =
     \<lparr>mode = Auto, maxQueriesPerTurn = 5, maxChaptersPerQuery = 3,
      maxAgentIterations = 2, agenticThreshold = 2\<rparr>"

definition exampleInput :: UserInputEvent where
  "exampleInput = \<lparr>text_of = ''I open the door''\<rparr>"

definition storyMessage :: "string \<Rightarrow> StoryMessage" where
  "storyMessage i = \<lparr>message_id = i, message_role = Assistant, message_content = ''...''\<rparr>"

text \<open>A story of three turns and no chapter yet, and one of sixty turns.\<close>

definition storyWorld :: world where
  "storyWorld =
     \<lparr>chapters = [],
      transcript = [storyMessage ''m1'', storyMessage ''m2'', storyMessage ''m3''],
      calls = [], emitted = [], clock = 7, saveRequests = []\<rparr>"

definition longWorld :: world where
  "longWorld = storyWorld\<lparr>transcript := replicate 60 (storyMessage ''m'')\<rparr>"

definition boundaryEvent :: "bool \<Rightarrow> ClassificationEvent" where
  "boundaryEvent due =
     \<lparr>chapterAnalysis =
        \<lparr>shouldCreateChapter = due,
         suggestedEndpoint =
           \<lparr>selected_endMessageId = ''m3'', selected_reason = ''scene ends'',
            selected_title = ''One''\<rparr>\<rparr>\<rparr>"

text \<open>
  A store that refuses a chapter ending where a chapter it holds already ends, and the
  story after the handler has served the boundary signal once.
\<close>

definition guardedEnv :: env where
  "guardedEnv =
     exampleEnv\<lparr>storeChapter := (\<lambda>chapter w.
        if endMessageId chapter \<in> set (map endMessageId (chapters w))
        then Inl (Error ''boundary already committed'')
        else Inr (chapters w @ [chapter]))\<rparr>"

definition afterFirstSignal :: "env \<Rightarrow> world" where
  "afterFirstSignal env = snd (handleClassificationComplete env (boundaryEvent True) storyWorld)"



definition entry :: "nat \<Rightarrow> nat \<Rightarrow> nat \<Rightarrow> ChapterEntry" where
  "entry n s e = \<lparr>entry_number = n, startTurn = s, endTurn = e\<rparr>"


section \<open>callLLM: one attempt, and a fallback for what the try catches\<close>

lemma callLLM_unfold:
  "callLLM this options s =
     (case provider this (length (sent s)) (requestOf this options) of
        Inl e \<Rightarrow>
          (Inr (fallbackResult options),
           s\<lparr>sent := sent s @ [requestOf this options],
             logged := logged s @ [(logPrefix options, ''Sending request...''),
                                   (logPrefix options, ''Request failed'')]\<rparr>)
      | Inr response \<Rightarrow>
          (case parseResponse options (resp_content response) of
             Inl e \<Rightarrow>
               (Inr (fallbackResult options),
                s\<lparr>sent := sent s @ [requestOf this options],
                  logged := logged s @ [(logPrefix options, ''Sending request...''),
                                        (logPrefix options, ''Response received''),
                                        (logPrefix options, ''Request failed'')]\<rparr>)
           | Inr x \<Rightarrow>
               (case x of Value v \<Rightarrow> Inr v | Promise outcome \<Rightarrow> outcome,
                s\<lparr>sent := sent s @ [requestOf this options],
                  logged := logged s @ [(logPrefix options, ''Sending request...''),
                                        (logPrefix options, ''Response received'')]\<rparr>)))"
  by (simp add: callLLM_def returning_def tryCatch_def andThen_def log_def generateResponse_def
        settled_def resolve_def requestOf_def Let_def split: sum.splits Returned.splits)

lemma callLLM_result:
  "fst (callLLM this options s) =
     (case provider this (length (sent s)) (requestOf this options) of
        Inl e \<Rightarrow> Inr (fallbackResult options)
      | Inr response \<Rightarrow>
          (case parseResponse options (resp_content response) of
             Inl e \<Rightarrow> Inr (fallbackResult options)
           | Inr (Value v) \<Rightarrow> Inr v
           | Inr (Promise outcome) \<Rightarrow> outcome))"
  by (simp add: callLLM_unfold split: sum.splits Returned.splits)

lemma callLLM_sent:
  "sent (snd (callLLM this options s)) = sent s @ [requestOf this options]"
  by (simp add: callLLM_unfold split: sum.splits)

text \<open>
  C10, as amended. \<open>callLLM\<close> resolves with \<open>fallbackResult\<close> when the provider call
  fails and when \<open>parseResponse\<close> throws, and with the parsed value when
  \<open>parseResponse\<close> returns one. When \<open>parseResponse\<close> returns a promise, that promise is
  returned without being awaited and \<open>callLLM\<close> settles as it does, so a promise that
  rejects makes \<open>callLLM\<close> reject with its error and \<open>fallbackResult\<close> is not used. Unless
  the parser returns a rejecting promise, \<open>callLLM\<close> resolves. (The logger, created
  before the \<open>try\<close>, is taken not to throw, and the provider's promise to settle.)
\<close>

theorem callLLM_fallback_unless_async_parser:
  "(\<forall>e. provider this (length (sent s)) (requestOf this options) = Inl e \<longrightarrow>
        fst (callLLM this options s) = Inr (fallbackResult options)) \<and>
   (\<forall>response e.
        provider this (length (sent s)) (requestOf this options) = Inr response \<and>
        parseResponse options (resp_content response) = Inl e \<longrightarrow>
        fst (callLLM this options s) = Inr (fallbackResult options)) \<and>
   (\<forall>response v.
        provider this (length (sent s)) (requestOf this options) = Inr response \<and>
        parseResponse options (resp_content response) = Inr (Value v) \<longrightarrow>
        fst (callLLM this options s) = Inr v) \<and>
   (\<forall>response outcome.
        provider this (length (sent s)) (requestOf this options) = Inr response \<and>
        parseResponse options (resp_content response) = Inr (Promise outcome) \<longrightarrow>
        fst (callLLM this options s) = outcome) \<and>
   ((\<forall>response e.
        provider this (length (sent s)) (requestOf this options) = Inr response \<longrightarrow>
        parseResponse options (resp_content response) \<noteq> Inr (Promise (Inl e))) \<longrightarrow>
    (\<exists>v. fst (callLLM this options s) = Inr v))"
proof -
  have settles:
    "(\<forall>response e.
        provider this (length (sent s)) (requestOf this options) = Inr response \<longrightarrow>
        parseResponse options (resp_content response) \<noteq> Inr (Promise (Inl e))) \<Longrightarrow>
     \<exists>v. fst (callLLM this options s) = Inr v"
  proof (cases "provider this (length (sent s)) (requestOf this options)")
    case (Inl e)
    then show ?thesis by (simp add: callLLM_result)
  next
    case (Inr response)
    assume never: "\<forall>response e.
        provider this (length (sent s)) (requestOf this options) = Inr response \<longrightarrow>
        parseResponse options (resp_content response) \<noteq> Inr (Promise (Inl e))"
    show ?thesis
    proof (cases "parseResponse options (resp_content response)")
      case (Inl e)
      with Inr show ?thesis by (simp add: callLLM_result)
    next
      case parsed: (Inr x)
      show ?thesis
      proof (cases x)
        case (Value v)
        with Inr parsed show ?thesis by (simp add: callLLM_result)
      next
        case (Promise outcome)
        with never Inr parsed obtain v where "outcome = Inr v" by (cases outcome) auto
        with Inr parsed Promise show ?thesis by (simp add: callLLM_result)
      qed
    qed
  qed
  then show ?thesis by (simp add: callLLM_result)
qed

theorem callLLM_fallback_unless_async_parser_witness:
  "provider exampleService (length (sent (freshNet\<lparr>sent := [requestOf exampleService strictOptions]\<rparr>)))
     (requestOf exampleService strictOptions) = Inr \<lparr>resp_content = ''ok''\<rparr> \<and>
   parseResponse strictOptions ''ok'' = Inl (Error ''parse'') \<and>
   fst (callLLM exampleService strictOptions
          (freshNet\<lparr>sent := [requestOf exampleService strictOptions]\<rparr>)) = Inr ''fallback'' \<and>
   parseResponse exampleOptions ''ok'' = Inr (Value ''ok'') \<and>
   fst (callLLM exampleService exampleOptions
          (freshNet\<lparr>sent := [requestOf exampleService exampleOptions]\<rparr>)) = Inr ''ok''"
  using callLLM_fallback_unless_async_parser
          [where this = exampleService and options = strictOptions
             and s = "freshNet\<lparr>sent := [requestOf exampleService strictOptions]\<rparr>"]
    callLLM_fallback_unless_async_parser
          [where this = exampleService and options = exampleOptions
             and s = "freshNet\<lparr>sent := [requestOf exampleService exampleOptions]\<rparr>"]
  by (simp add: exampleService_def exampleOptions_def strictOptions_def flakyProvider_def freshNet_def)

text \<open>
  C10 as stated fails: the provider answers and the parser returns a promise that
  rejects. \<open>callLLM\<close> rejects with the parser's error; it does not resolve with
  \<open>fallbackResult\<close>.
\<close>

theorem callLLM_async_parser_counterexample:
  "provider exampleService 1 (requestOf exampleService asyncOptions) = Inr \<lparr>resp_content = ''ok''\<rparr> \<and>
   parseResponse asyncOptions ''ok'' = Inr (Promise (Inl (Error ''parse''))) \<and>
   fallbackResult asyncOptions = ''fallback'' \<and>
   fst (callLLM exampleService asyncOptions
          (freshNet\<lparr>sent := [requestOf exampleService asyncOptions]\<rparr>)) = Inl (Error ''parse'')"
  by (simp add: callLLM_result exampleService_def exampleOptions_def asyncOptions_def
        flakyProvider_def freshNet_def)

text \<open>
  C8, as amended. \<open>callLLM\<close> sends exactly one request to the provider per call and does
  not retry: when that one request fails the call resolves with \<open>fallbackResult\<close>; the
  failure is not escalated.
\<close>

theorem callLLM_single_attempt:
  "sent (snd (callLLM this options s)) = sent s @ [requestOf this options] \<and>
   (\<forall>e. provider this (length (sent s)) (requestOf this options) = Inl e \<longrightarrow>
        fst (callLLM this options s) = Inr (fallbackResult options))"
  by (simp add: callLLM_result callLLM_sent)

theorem callLLM_single_attempt_witness:
  "provider exampleService (length (sent freshNet)) (requestOf exampleService exampleOptions)
     = Inl (Error ''timeout'') \<and>
   sent (snd (callLLM exampleService exampleOptions freshNet))
     = [requestOf exampleService exampleOptions] \<and>
   fst (callLLM exampleService exampleOptions freshNet) = Inr ''fallback''"
  using callLLM_single_attempt
          [where this = exampleService and options = exampleOptions and s = freshNet]
  by (simp add: exampleService_def flakyProvider_def freshNet_def exampleOptions_def)

text \<open>
  C8 as stated fails: the provider below times out on the first request and would answer
  the second. \<open>callLLM\<close> sends one request, gives up with the fallback, and reports no
  failure, where the claim has the failure retried up to five times and an exhausted
  budget escalate.
\<close>

theorem callLLM_retry_counterexample:
  "flakyProvider 0 (requestOf exampleService exampleOptions) = Inl (Error ''timeout'') \<and>
   flakyProvider 1 (requestOf exampleService exampleOptions) = Inr \<lparr>resp_content = ''ok''\<rparr> \<and>
   length (sent (snd (callLLM exampleService exampleOptions freshNet))) = 1 \<and>
   fst (callLLM exampleService exampleOptions freshNet) = Inr ''fallback''"
  by (simp add: callLLM_unfold exampleService_def flakyProvider_def freshNet_def exampleOptions_def)

section \<open>Running programs\<close>

lemma andThen_apply:
  "andThen p f s = (case p s of (Inl e, s') \<Rightarrow> (Inl e, s') | (Inr v, s') \<Rightarrow> f v s')"
  by (simp add: andThen_def)

lemmas prog_simps = andThen_apply resolve_def reject_def reading_def emit_def aiCall_def settled_def

section \<open>handleUserInput: the empty history and the choice of strategy\<close>

lemma handleUserInput_unfold:
  "handleUserInput env config event w =
     (if getChapters w = [] then
        (Inr (), w\<lparr>emitted := emitted w @ [ContextReady None (text_of event)]\<rparr>)
      else
        (case (if useAgentic config (getChapters w)
               then agenticRetrieval env config (text_of event) (getChapters w)
               else staticRetrieval env (text_of event) (getChapters w)) w of
           (Inl e, w') \<Rightarrow> (Inl e, w')
         | (Inr context, w') \<Rightarrow>
             (Inr (), w'\<lparr>emitted := emitted w' @ [ContextReady (Some context) (text_of event)]\<rparr>)))"
  by (simp add: handleUserInput_def prog_simps)



lemma agenticRetrieval_unfold:
  "agenticRetrieval env config userInput chs w =
     (case agentLoop env (maxAgentIterations config) 0 (startOfLoop env userInput chs) w of
        (Inl e, w') \<Rightarrow> (Inl e, w')
      | (Inr (iterations, st), w') \<Rightarrow>
          (Inr \<lparr>queriedChapters = gatheredContext st, retrievalTimestamp = clock w'\<rparr>, w'))"
  by (simp add: agenticRetrieval_def prog_simps split: prod.splits sum.splits)

lemma staticRetrieval_unfold:
  "staticRetrieval env userInput chs w =
     (case decideRetrieval env (length (calls w)) userInput chs of
        Inl e \<Rightarrow> (Inl e, w\<lparr>calls := calls w @ [DecideCall]\<rparr>)
      | Inr decision \<Rightarrow>
          (case settleAll
                  (map (\<lambda>q. query_chapter env (query_chapterNumber q) (query_question q))
                     (queries decision))
                  (w\<lparr>calls := calls w @ [DecideCall]\<rparr>) of
             (rs, w') \<Rightarrow>
               (case allOrRejection (firstToReject env) rs of
                  Inl e \<Rightarrow> (Inl e, w')
                | Inr results \<Rightarrow>
                    (Inr \<lparr>queriedChapters = results, retrievalTimestamp = clock w'\<rparr>, w'))))"
  by (simp add: staticRetrieval_def prog_simps promiseAll_def split: sum.splits prod.splits)

text \<open>
  C2. With no committed chapter \<open>handleUserInput\<close> emits \<open>ContextReady\<close> with a null
  context at once and issues no model call (the list of calls is unchanged). With at
  least one chapter it runs the configured strategy and emits that strategy's context;
  a strategy that fails makes the handler fail with the same error.
\<close>

theorem handleUserInput_short_circuit:
  "(getChapters w = [] \<longrightarrow>
      handleUserInput env config event w
        = (Inr (), w\<lparr>emitted := emitted w @ [ContextReady None (text_of event)]\<rparr>) \<and>
      calls (snd (handleUserInput env config event w)) = calls w) \<and>
   (getChapters w \<noteq> [] \<longrightarrow>
      handleUserInput env config event w
        = (case (if useAgentic config (getChapters w)
                 then agenticRetrieval env config (text_of event) (getChapters w)
                 else staticRetrieval env (text_of event) (getChapters w)) w of
             (Inl e, w') \<Rightarrow> (Inl e, w')
           | (Inr context, w') \<Rightarrow>
               (Inr (), w'\<lparr>emitted := emitted w' @ [ContextReady (Some context) (text_of event)]\<rparr>)))"
  by (simp add: handleUserInput_unfold)

theorem handleUserInput_short_circuit_witness:
  "getChapters storyWorld = [] \<and>
   handleUserInput exampleEnv exampleConfig exampleInput storyWorld
     = (Inr (), storyWorld\<lparr>emitted := [ContextReady None ''I open the door'']\<rparr>) \<and>
   calls (snd (handleUserInput exampleEnv exampleConfig exampleInput storyWorld)) = [] \<and>
   getChapters exampleWorld \<noteq> [] \<and>
   handleUserInput reliableEnv (exampleConfig\<lparr>mode := Static\<rparr>) exampleInput exampleWorld
     = (Inr (),
        exampleWorld
          \<lparr>calls := [DecideCall, QueryCall 1, QueryCall 2, QueryCall 3],
           emitted :=
             [ContextReady
                (Some \<lparr>queriedChapters =
                         [ChapterAnswer 1 ''what happened'' ''answer'',
                          ChapterAnswer 2 ''what happened'' ''answer'',
                          ChapterAnswer 3 ''what happened'' ''answer''],
                       retrievalTimestamp = 7\<rparr>)
                ''I open the door'']\<rparr>)"
  using handleUserInput_short_circuit [of storyWorld exampleEnv exampleConfig exampleInput]
    handleUserInput_short_circuit
      [of exampleWorld reliableEnv "exampleConfig\<lparr>mode := Static\<rparr>" exampleInput]
  by (simp add: handleUserInput_unfold useAgentic_def getChapters_def staticRetrieval_unfold prog_simps
        query_chapter_def getChapter_def exampleEnv_def reliableEnv_def exampleWorld_def
        exampleChapter_def exampleConfig_def exampleInput_def exampleDecision_def exampleQuery_def storyWorld_def
        allOrRejection_def)

text \<open>
  C9. In a retrieval (a turn with at least one committed chapter) mode \<open>auto\<close> runs the
  agentic strategy exactly when the number of committed chapters exceeds
  \<open>agenticThreshold\<close> and the static strategy otherwise; modes \<open>static\<close> and \<open>agentic\<close> run
  their own strategy whatever the number of chapters.
\<close>

theorem retrieval_mode_selection:
  "getChapters w \<noteq> [] \<Longrightarrow>
   (mode config = Auto \<longrightarrow>
      handleUserInput env config event w
        = andThen (if length (getChapters w) > agenticThreshold config
                   then agenticRetrieval env config (text_of event) (getChapters w)
                   else staticRetrieval env (text_of event) (getChapters w))
            (\<lambda>context. emit (ContextReady (Some context) (text_of event))) w) \<and>
   (mode config = Static \<longrightarrow>
      handleUserInput env config event w
        = andThen (staticRetrieval env (text_of event) (getChapters w))
            (\<lambda>context. emit (ContextReady (Some context) (text_of event))) w) \<and>
   (mode config = Agentic \<longrightarrow>
      handleUserInput env config event w
        = andThen (agenticRetrieval env config (text_of event) (getChapters w))
            (\<lambda>context. emit (ContextReady (Some context) (text_of event))) w)"
  by (simp add: handleUserInput_def useAgentic_def andThen_apply reading_def)

theorem retrieval_mode_selection_witness:
  "getChapters exampleWorld \<noteq> [] \<and> mode exampleConfig = Auto \<and>
   length (getChapters exampleWorld) > agenticThreshold exampleConfig \<and>
   handleUserInput reliableEnv exampleConfig exampleInput exampleWorld
     = andThen (agenticRetrieval reliableEnv exampleConfig ''I open the door'' (getChapters exampleWorld))
         (\<lambda>context. emit (ContextReady (Some context) ''I open the door'')) exampleWorld \<and>
   calls (snd (handleUserInput reliableEnv exampleConfig exampleInput exampleWorld))
     = [AgentCall, QueryCall 1, AgentCall, QueryCall 1] \<and>
   \<not> length (getChapters exampleWorld) > agenticThreshold (exampleConfig\<lparr>agenticThreshold := 3\<rparr>) \<and>
   handleUserInput reliableEnv (exampleConfig\<lparr>agenticThreshold := 3\<rparr>) exampleInput exampleWorld
     = andThen (staticRetrieval reliableEnv ''I open the door'' (getChapters exampleWorld))
         (\<lambda>context. emit (ContextReady (Some context) ''I open the door'')) exampleWorld \<and>
   calls (snd (handleUserInput reliableEnv (exampleConfig\<lparr>agenticThreshold := 3\<rparr>) exampleInput exampleWorld))
     = [DecideCall, QueryCall 1, QueryCall 2, QueryCall 3]"
  using retrieval_mode_selection [of exampleWorld exampleConfig reliableEnv exampleInput]
    retrieval_mode_selection
      [of exampleWorld "exampleConfig\<lparr>agenticThreshold := 3\<rparr>" reliableEnv exampleInput]
  by (simp add: handleUserInput_unfold useAgentic_def getChapters_def staticRetrieval_unfold prog_simps
        query_chapter_def getChapter_def exampleEnv_def reliableEnv_def exampleWorld_def
        exampleChapter_def exampleConfig_def exampleInput_def exampleDecision_def exampleQuery_def
        agenticRetrieval_unfold startOfLoop_def agentLoop.simps callTool_def allOrRejection_def)

section \<open>Static retrieval: Promise.all is all or nothing\<close>

lemma settleAll_length: "length (fst (settleAll ps s)) = length ps"
proof (induction ps arbitrary: s)
  case Nil
  show ?case by simp
next
  case (Cons p ps)
  obtain r s' where first: "p s = (r, s')" by (cases "p s")
  obtain rs s'' where rest: "settleAll ps s' = (rs, s'')" by (cases "settleAll ps s'")
  from Cons [of s'] rest have "length rs = length ps" by simp
  with first rest show ?case by simp
qed

lemma rejections_set: "set (rejections rs) = {e. Inl e \<in> set rs}"
  by (induction rs rule: rejections.induct) auto

lemma rejections_none: "rejections (map Inr vs) = []"
  by (induction vs) auto

lemma fulfilments_all: "fulfilments (map Inr vs) = vs"
  by (induction vs) auto

lemma rejections_one: "rejections (map Inr before @ Inl e # map Inr after) = [e]"
  by (induction before) (auto simp: rejections_none)

lemma allOrRejection_all: "allOrRejection race (map Inr vs) = Inr vs"
  by (simp add: allOrRejection_def rejections_none fulfilments_all)

lemma allOrRejection_one: "allOrRejection race (map Inr before @ Inl e # map Inr after) = Inl e"
  by (simp add: allOrRejection_def rejections_one)

lemma allOrRejection_some:
  assumes "Inl e \<in> set rs"
  shows "\<exists>e'. Inl e' \<in> set rs \<and> allOrRejection race rs = Inl e'"
proof -
  from assms have "e \<in> set (rejections rs)" by (simp add: rejections_set)
  then obtain x xs where shape: "rejections rs = x # xs" by (cases "rejections rs") auto
  have "(x # xs) ! (race (x # xs) mod length (x # xs)) \<in> set (x # xs)"
    by (intro nth_mem) simp
  with shape have "Inl ((x # xs) ! (race (x # xs) mod length (x # xs))) \<in> set rs"
    using rejections_set [of rs] by auto
  with shape show ?thesis by (auto simp: allOrRejection_def)
qed

text \<open>
  A query changes the world by its model call alone, and makes one exactly when its
  chapter exists.
\<close>

lemma query_chapter_world:
  "snd (query_chapter env n question w)
     = (if getChapter n w = None then w else w\<lparr>calls := calls w @ [QueryCall n]\<rparr>)"
  by (simp add: query_chapter_def prog_simps split: option.splits sum.splits)

lemma getChapter_calls: "getChapter n (w\<lparr>calls := cs\<rparr>) = getChapter n w"
  by (simp add: getChapter_def)

lemma settleAll_queries:
  "snd (settleAll (map (\<lambda>q. query_chapter env (query_chapterNumber q) (query_question q)) qs) w)
     = w\<lparr>calls := calls w
           @ map QueryCall (filter (\<lambda>n. getChapter n w \<noteq> None) (map query_chapterNumber qs))\<rparr>"
proof (induction qs arbitrary: w)
  case Nil
  show ?case by simp
next
  case (Cons q qs)
  let ?run = "\<lambda>q. query_chapter env (query_chapterNumber q) (query_question q)"
  obtain r w1 where first: "?run q w = (r, w1)" by (cases "?run q w")
  have w1: "w1 = (if getChapter (query_chapterNumber q) w = None then w
                  else w\<lparr>calls := calls w @ [QueryCall (query_chapterNumber q)]\<rparr>)"
    using query_chapter_world [of env "query_chapterNumber q" "query_question q" w] first by simp
  obtain rs w2 where rest: "settleAll (map ?run qs) w1 = (rs, w2)"
    by (cases "settleAll (map ?run qs) w1")
  have w2: "w2 = w1\<lparr>calls := calls w1
              @ map QueryCall (filter (\<lambda>n. getChapter n w1 \<noteq> None) (map query_chapterNumber qs))\<rparr>"
    using Cons.IH [of w1] rest by simp
  have same: "\<And>n. getChapter n w1 = getChapter n w"
    using w1 by (simp add: getChapter_calls)
  from first rest w1 w2 same show ?case by simp
qed

lemma issuedQueries_calls: "issuedQueries decision (w\<lparr>calls := cs\<rparr>) = issuedQueries decision w"
  by (simp add: issuedQueries_def getChapter_calls)

lemma staticRetrieval_world:
  "decideRetrieval env (length (calls w)) userInput chs = Inr decision \<Longrightarrow>
   snd (staticRetrieval env userInput chs w)
     = w\<lparr>calls := calls w @ DecideCall # issuedQueries decision w\<rparr>"
proof -
  assume decided: "decideRetrieval env (length (calls w)) userInput chs = Inr decision"
  let ?w1 = "w\<lparr>calls := calls w @ [DecideCall]\<rparr>"
  let ?ps = "map (\<lambda>q. query_chapter env (query_chapterNumber q) (query_question q)) (queries decision)"
  obtain rs w2 where run: "settleAll ?ps ?w1 = (rs, w2)" by (cases "settleAll ?ps ?w1")
  have "w2 = ?w1\<lparr>calls := calls ?w1 @ issuedQueries decision ?w1\<rparr>"
    using settleAll_queries [of env "queries decision" ?w1] run by (simp add: issuedQueries_def)
  then have w2: "w2 = w\<lparr>calls := calls w @ DecideCall # issuedQueries decision w\<rparr>"
    by (simp add: issuedQueries_calls)
  from decided run w2 show ?thesis
    by (simp add: staticRetrieval_unfold split: sum.splits)
qed

text \<open>
  C4, as amended. In a static retrieval whose decision selects k chapters, every query is
  issued whether or not another fails: the retrieval leaves the world with the decision
  call and one query call for each selected chapter that exists, and there are k
  outcomes. When exactly one query fails, the retrieval fails with that query's error and
  returns no context; when any fails, it fails with the error of one of the failed
  queries. Only when all k succeed is the context their k answers, in decision order.
  When the retrieval fails, \<open>handleUserInput\<close> (static strategy) fails with the same
  error, in a world where only the list of model calls has grown: no \<open>ContextReady\<close> is
  emitted.
\<close>

theorem staticRetrieval_all_or_nothing:
  "decideRetrieval env (length (calls w)) userInput chs = Inr decision \<Longrightarrow>
   outcomes = queryOutcomes env decision (w\<lparr>calls := calls w @ [DecideCall]\<rparr>) \<Longrightarrow>
   snd (staticRetrieval env userInput chs w)
     = w\<lparr>calls := calls w @ DecideCall # issuedQueries decision w\<rparr> \<and>
   length outcomes = length (queries decision) \<and>
   (\<forall>before e after.
      outcomes = map Inr before @ Inl e # map Inr after \<longrightarrow>
      fst (staticRetrieval env userInput chs w) = Inl e) \<and>
   ((\<exists>e. Inl e \<in> set outcomes) \<longrightarrow>
      (\<exists>e. Inl e \<in> set outcomes \<and> fst (staticRetrieval env userInput chs w) = Inl e)) \<and>
   (\<forall>results.
      outcomes = map Inr results \<longrightarrow>
      fst (staticRetrieval env userInput chs w)
        = Inr \<lparr>queriedChapters = results, retrievalTimestamp = clock w\<rparr>) \<and>
   (\<forall>e. fst (staticRetrieval env userInput chs w) = Inl e \<and> getChapters w = chs \<and> chs \<noteq> [] \<and>
        \<not> useAgentic config chs \<and> text_of event = userInput \<longrightarrow>
      handleUserInput env config event w
        = (Inl e, w\<lparr>calls := calls w @ DecideCall # issuedQueries decision w\<rparr>))"
proof -
  assume decided: "decideRetrieval env (length (calls w)) userInput chs = Inr decision"
  assume outcomes: "outcomes = queryOutcomes env decision (w\<lparr>calls := calls w @ [DecideCall]\<rparr>)"
  let ?w1 = "w\<lparr>calls := calls w @ [DecideCall]\<rparr>"
  let ?ps = "map (\<lambda>q. query_chapter env (query_chapterNumber q) (query_question q)) (queries decision)"
  let ?after = "w\<lparr>calls := calls w @ DecideCall # issuedQueries decision w\<rparr>"
  have world: "snd (staticRetrieval env userInput chs w) = ?after"
    using decided by (rule staticRetrieval_world)
  obtain rs w2 where run: "settleAll ?ps ?w1 = (rs, w2)" by (cases "settleAll ?ps ?w1")
  have rs: "rs = outcomes" using run outcomes by (simp add: queryOutcomes_def)
  have result: "fst (staticRetrieval env userInput chs w)
      = (case allOrRejection (firstToReject env) outcomes of
           Inl e \<Rightarrow> Inl e
         | Inr results \<Rightarrow> Inr \<lparr>queriedChapters = results, retrievalTimestamp = clock w2\<rparr>)"
    using decided run rs by (simp add: staticRetrieval_unfold split: sum.splits)
  have w2: "w2 = ?after"
    using world decided run by (simp add: staticRetrieval_unfold split: sum.splits)
  have count: "length outcomes = length (queries decision)"
    using settleAll_length [of ?ps ?w1] outcomes by (simp add: queryOutcomes_def)
  have one: "\<forall>before e after.
      outcomes = map Inr before @ Inl e # map Inr after \<longrightarrow>
      fst (staticRetrieval env userInput chs w) = Inl e"
    using result by (auto simp: allOrRejection_one)
  have some: "(\<exists>e. Inl e \<in> set outcomes) \<longrightarrow>
      (\<exists>e. Inl e \<in> set outcomes \<and> fst (staticRetrieval env userInput chs w) = Inl e)"
  proof
    assume "\<exists>e. Inl e \<in> set outcomes"
    then obtain e where "Inl e \<in> set outcomes" ..
    from allOrRejection_some [OF this, of "firstToReject env"] obtain e' where
      "Inl e' \<in> set outcomes" "allOrRejection (firstToReject env) outcomes = Inl e'" by blast
    with result show "\<exists>e. Inl e \<in> set outcomes \<and> fst (staticRetrieval env userInput chs w) = Inl e"
      by auto
  qed
  have all: "\<forall>results.
      outcomes = map Inr results \<longrightarrow>
      fst (staticRetrieval env userInput chs w)
        = Inr \<lparr>queriedChapters = results, retrievalTimestamp = clock w\<rparr>"
    using result w2 by (auto simp: allOrRejection_all)
  have handler: "\<forall>e. fst (staticRetrieval env userInput chs w) = Inl e \<and> getChapters w = chs \<and>
        chs \<noteq> [] \<and> \<not> useAgentic config chs \<and> text_of event = userInput \<longrightarrow>
      handleUserInput env config event w = (Inl e, ?after)"
  proof (intro allI impI)
    fix e
    assume h: "fst (staticRetrieval env userInput chs w) = Inl e \<and> getChapters w = chs \<and>
        chs \<noteq> [] \<and> \<not> useAgentic config chs \<and> text_of event = userInput"
    then have "staticRetrieval env userInput chs w = (Inl e, ?after)"
      using world by (metis prod.collapse)
    with h show "handleUserInput env config event w = (Inl e, ?after)"
      by (simp add: handleUserInput_unfold)
  qed
  from world count one some all handler show ?thesis by blast
qed

text \<open>
  The witness: one failure among three queries (chapter 2), then none, then two failures
  (chapters 2 and 3) of which the second settles first.
\<close>

theorem staticRetrieval_all_or_nothing_witness:
  "decideRetrieval exampleEnv (length (calls exampleWorld)) ''I open the door'' (chapters exampleWorld)
     = Inr exampleDecision \<and>
   queryOutcomes exampleEnv exampleDecision (exampleWorld\<lparr>calls := calls exampleWorld @ [DecideCall]\<rparr>)
     = map Inr [ChapterAnswer 1 ''what happened'' ''answer''] @ Inl (Error ''timeout'')
       # map Inr [ChapterAnswer 3 ''what happened'' ''answer''] \<and>
   staticRetrieval exampleEnv ''I open the door'' (chapters exampleWorld) exampleWorld
     = (Inl (Error ''timeout''),
        exampleWorld\<lparr>calls := [DecideCall, QueryCall 1, QueryCall 2, QueryCall 3]\<rparr>) \<and>
   handleUserInput exampleEnv (exampleConfig\<lparr>mode := Static\<rparr>) exampleInput exampleWorld
     = (Inl (Error ''timeout''),
        exampleWorld\<lparr>calls := [DecideCall, QueryCall 1, QueryCall 2, QueryCall 3]\<rparr>) \<and>
   staticRetrieval reliableEnv ''I open the door'' (chapters exampleWorld) exampleWorld
     = (Inr \<lparr>queriedChapters =
               [ChapterAnswer 1 ''what happened'' ''answer'',
                ChapterAnswer 2 ''what happened'' ''answer'',
                ChapterAnswer 3 ''what happened'' ''answer''],
             retrievalTimestamp = 7\<rparr>,
        exampleWorld\<lparr>calls := [DecideCall, QueryCall 1, QueryCall 2, QueryCall 3]\<rparr>) \<and>
   queryOutcomes racingEnv exampleDecision (exampleWorld\<lparr>calls := calls exampleWorld @ [DecideCall]\<rparr>)
     = [Inr (ChapterAnswer 1 ''what happened'' ''answer''), Inl (Error ''timeout 2''),
        Inl (Error ''timeout 3'')] \<and>
   staticRetrieval racingEnv ''I open the door'' (chapters exampleWorld) exampleWorld
     = (Inl (Error ''timeout 3''),
        exampleWorld\<lparr>calls := [DecideCall, QueryCall 1, QueryCall 2, QueryCall 3]\<rparr>)"
  using staticRetrieval_all_or_nothing
          [where env = exampleEnv and w = exampleWorld and userInput = "''I open the door''"
             and chs = "chapters exampleWorld" and decision = exampleDecision
             and config = "exampleConfig\<lparr>mode := Static\<rparr>" and event = exampleInput,
           OF _ refl]
    staticRetrieval_all_or_nothing
          [where env = reliableEnv and w = exampleWorld and userInput = "''I open the door''"
             and chs = "chapters exampleWorld" and decision = exampleDecision
             and config = "exampleConfig\<lparr>mode := Static\<rparr>" and event = exampleInput,
           OF _ refl]
    staticRetrieval_all_or_nothing
          [where env = racingEnv and w = exampleWorld and userInput = "''I open the door''"
             and chs = "chapters exampleWorld" and decision = exampleDecision
             and config = "exampleConfig\<lparr>mode := Static\<rparr>" and event = exampleInput,
           OF _ refl]
  by (simp add: handleUserInput_unfold useAgentic_def getChapters_def staticRetrieval_unfold prog_simps
        query_chapter_def getChapter_def exampleEnv_def reliableEnv_def racingEnv_def exampleWorld_def
        exampleChapter_def exampleConfig_def exampleInput_def exampleDecision_def exampleQuery_def
        queryOutcomes_def allOrRejection_def)

text \<open>
  C4 as stated fails: the decision selects chapters 1, 2 and 3, the queries of chapters 1
  and 3 are answered and the query of chapter 2 fails. The retrieval returns the error,
  not the two answers, and the handler emits no context for the turn.
\<close>

theorem staticRetrieval_isolation_counterexample:
  "queryOutcomes exampleEnv exampleDecision (exampleWorld\<lparr>calls := [DecideCall]\<rparr>)
     = [Inr (ChapterAnswer 1 ''what happened'' ''answer''), Inl (Error ''timeout''),
        Inr (ChapterAnswer 3 ''what happened'' ''answer'')] \<and>
   fst (staticRetrieval exampleEnv ''I open the door'' (chapters exampleWorld) exampleWorld)
     = Inl (Error ''timeout'') \<and>
   handleUserInput exampleEnv (exampleConfig\<lparr>mode := Static\<rparr>) exampleInput exampleWorld
     = (Inl (Error ''timeout''),
        exampleWorld\<lparr>calls := [DecideCall, QueryCall 1, QueryCall 2, QueryCall 3]\<rparr>) \<and>
   emitted (snd (handleUserInput exampleEnv (exampleConfig\<lparr>mode := Static\<rparr>) exampleInput exampleWorld))
     = []"
  by (simp add: handleUserInput_unfold useAgentic_def getChapters_def staticRetrieval_unfold prog_simps
        query_chapter_def getChapter_def exampleEnv_def exampleWorld_def
        exampleChapter_def exampleConfig_def exampleInput_def exampleDecision_def exampleQuery_def
        queryOutcomes_def allOrRejection_def)

section \<open>Agentic retrieval: the iteration cap\<close>








section \<open>Chapter creation: the flag decides, and nothing looks for duplicates\<close>

lemma createChapter_unfold:
  "createChapter env endpoint w =
     (let msgs = getMessagesSinceLastChapter (selected_endMessageId endpoint) w in
      case summarizeChapter env (length (calls w)) msgs of
        Inl e \<Rightarrow> (Inl e, w\<lparr>calls := calls w @ [SummarizeCall]\<rparr>)
      | Inr summaryText \<Rightarrow>
          (case extractMetadata env (Suc (length (calls w))) msgs summaryText of
             Inl e \<Rightarrow> (Inl e, w\<lparr>calls := calls w @ [SummarizeCall, ExtractCall]\<rparr>)
           | Inr metadata \<Rightarrow>
               (case chapterStart (getLastChapterEnd w) msgs of
                  Inl e \<Rightarrow> (Inl e, w\<lparr>calls := calls w @ [SummarizeCall, ExtractCall]\<rparr>)
                | Inr start \<Rightarrow>
                    (case storeChapter env (newChapter env endpoint w summaryText metadata start)
                            (w\<lparr>calls := calls w @ [SummarizeCall, ExtractCall]\<rparr>) of
                       Inl e \<Rightarrow>
                         (Inl e,
                          w\<lparr>calls := calls w @ [SummarizeCall, ExtractCall],
                            saveRequests := saveRequests w
                              @ [newChapter env endpoint w summaryText metadata start]\<rparr>)
                     | Inr stored \<Rightarrow>
                         (Inr (newChapter env endpoint w summaryText metadata start),
                          w\<lparr>calls := calls w @ [SummarizeCall, ExtractCall],
                            chapters := stored,
                            saveRequests := saveRequests w
                              @ [newChapter env endpoint w summaryText metadata start],
                            emitted := emitted w
                              @ [ChapterCreated (newChapter env endpoint w summaryText metadata start)]\<rparr>)))))"
  by (simp add: createChapter_def prog_simps saveChapter_def Let_def newChapter_def
        getChapters_def getLastChapterEnd_def getMessagesSinceLastChapter_def
        messagesSinceLastChapter_def
        split: sum.splits)

lemma createChapter_calls:
  "take (Suc (length (calls w))) (calls (snd (createChapter env endpoint w))) = calls w @ [SummarizeCall]"
  by (simp add: createChapter_unfold Let_def split: sum.splits)

lemma handler_attempts_iff_flag:
  "attemptsCreation env event w = shouldCreateChapter (chapterAnalysis event)"
  by (simp add: attemptsCreation_def handleClassificationComplete_def createChapter_calls
        andThen_apply resolve_def split: prod.splits sum.splits)
     (metis createChapter_calls snd_conv)

text \<open>
  C3, as amended. The classification handler starts chapter creation exactly when the
  signal's \<open>shouldCreateChapter\<close> flag is set, in every world and so for every number of
  unassigned turns: the handler does not compare that number with N + X. (design.md
  gives the count and the threshold to the classifier, whose prompt is to set the flag
  only past the threshold.)
\<close>

theorem creation_follows_the_flag:
  "attemptsCreation env event w = shouldCreateChapter (chapterAnalysis event)"
  by (rule handler_attempts_iff_flag)

text \<open>
  C3 as stated fails in both directions, with N = 50 and X = 10: with 3 unassigned turns
  and the flag set the handler starts creation; with 60 unassigned turns and the flag
  not set it does not.
\<close>

theorem threshold_trigger_counterexample:
  "unassignedTurnCount storyWorld = 3 \<and>
   \<not> thresholdReached defaultMemoryConfig storyWorld \<and>
   attemptsCreation exampleEnv (boundaryEvent True) storyWorld \<and>
   unassignedTurnCount longWorld = 60 \<and>
   thresholdReached defaultMemoryConfig longWorld \<and>
   \<not> attemptsCreation exampleEnv (boundaryEvent False) longWorld"
  by (simp add: handler_attempts_iff_flag boundaryEvent_def thresholdReached_def
        unassignedTurnCount_def messagesSinceLastChapter_def getLastChapterEnd_def
        storyWorld_def longWorld_def defaultMemoryConfig_def)

text \<open>
  C7, as amended. The handler has no check for a boundary that is already committed:
  whatever the chapter store holds, a signal with the flag set runs \<open>createChapter\<close>
  again. The summary call is issued again; when it and the metadata call succeed (and a
  start id is found), both calls have been issued and a chapter numbered count + 1 that
  ends at the signal's endpoint is handed to \<open>saveChapter\<close>. What \<open>saveChapter\<close> does
  with it is not in the sources.
\<close>

theorem duplicate_signal_runs_creation_again:
  "shouldCreateChapter (chapterAnalysis event) \<Longrightarrow>
   endpoint = suggestedEndpoint (chapterAnalysis event) \<Longrightarrow>
   msgs = getMessagesSinceLastChapter (selected_endMessageId endpoint) w \<Longrightarrow>
   take (Suc (length (calls w))) (calls (snd (handleClassificationComplete env event w)))
     = calls w @ [SummarizeCall] \<and>
   (\<forall>summaryText metadata start chapter.
      summarizeChapter env (length (calls w)) msgs = Inr summaryText \<and>
      extractMetadata env (Suc (length (calls w))) msgs summaryText = Inr metadata \<and>
      chapterStart (getLastChapterEnd w) msgs = Inr start \<and>
      chapter = newChapter env endpoint w summaryText metadata start \<longrightarrow>
      calls (snd (handleClassificationComplete env event w))
        = calls w @ [SummarizeCall, ExtractCall] \<and>
      saveRequests (snd (handleClassificationComplete env event w)) = saveRequests w @ [chapter] \<and>
      number chapter = length (getChapters w) + 1 \<and>
      endMessageId chapter = selected_endMessageId endpoint)"
proof -
  assume flag: "shouldCreateChapter (chapterAnalysis event)"
  assume endpoint: "endpoint = suggestedEndpoint (chapterAnalysis event)"
  assume msgs: "msgs = getMessagesSinceLastChapter (selected_endMessageId endpoint) w"
  have handler: "snd (handleClassificationComplete env event w) = snd (createChapter env endpoint w)"
    using flag endpoint
    by (simp add: handleClassificationComplete_def andThen_apply resolve_def split: prod.splits sum.splits)
  have first: "take (Suc (length (calls w))) (calls (snd (handleClassificationComplete env event w)))
      = calls w @ [SummarizeCall]"
    using handler by (simp add: createChapter_calls)
  have rest: "\<forall>summaryText metadata start chapter.
      summarizeChapter env (length (calls w)) msgs = Inr summaryText \<and>
      extractMetadata env (Suc (length (calls w))) msgs summaryText = Inr metadata \<and>
      chapterStart (getLastChapterEnd w) msgs = Inr start \<and>
      chapter = newChapter env endpoint w summaryText metadata start \<longrightarrow>
      calls (snd (handleClassificationComplete env event w))
        = calls w @ [SummarizeCall, ExtractCall] \<and>
      saveRequests (snd (handleClassificationComplete env event w)) = saveRequests w @ [chapter] \<and>
      number chapter = length (getChapters w) + 1 \<and>
      endMessageId chapter = selected_endMessageId endpoint"
    unfolding handler msgs
    by (auto simp: createChapter_unfold Let_def newChapter_def getChapters_def split: sum.splits)
  from first rest show ?thesis by blast
qed

text \<open>
  The witness: the boundary signal (endpoint m3) after it has been served once, with a
  store that refuses a boundary it already holds.
\<close>

theorem duplicate_signal_runs_creation_again_witness:
  "shouldCreateChapter (chapterAnalysis (boundaryEvent True)) \<and>
   map endMessageId (chapters (afterFirstSignal guardedEnv)) = [''m3''] \<and>
   selected_endMessageId (suggestedEndpoint (chapterAnalysis (boundaryEvent True))) = ''m3'' \<and>
   calls (snd (handleClassificationComplete guardedEnv (boundaryEvent True) (afterFirstSignal guardedEnv)))
     = calls (afterFirstSignal guardedEnv) @ [SummarizeCall, ExtractCall] \<and>
   map number
     (saveRequests
        (snd (handleClassificationComplete guardedEnv (boundaryEvent True) (afterFirstSignal guardedEnv))))
     = [1, 2]"
  using duplicate_signal_runs_creation_again
          [where event = "boundaryEvent True" and w = "afterFirstSignal guardedEnv"
             and env = guardedEnv, OF _ refl refl]
  by (simp add: handleClassificationComplete_def andThen_apply resolve_def createChapter_unfold Let_def
        chapterStart_def getLastChapterEnd_def newChapter_def boundaryEvent_def storyWorld_def
        exampleEnv_def guardedEnv_def exampleMetadata_def getMessagesSinceLastChapter_def
        messagesSinceLastChapter_def storyMessage_def afterFirstSignal_def)

text \<open>
  C7 as stated fails: the second handling of the same boundary signal (endpoint m3) on a
  story of three turns is not a no-op. Both with a store that keeps every chapter and
  with one that refuses a boundary it already holds, it issues the summary and metadata
  calls a second time and hands \<open>saveChapter\<close> a second chapter, numbered 2, that ends at
  m3.
\<close>

theorem duplicate_signal_counterexample:
  "calls (snd (handleClassificationComplete exampleEnv (boundaryEvent True) (afterFirstSignal exampleEnv)))
     = [SummarizeCall, ExtractCall, SummarizeCall, ExtractCall] \<and>
   map number
     (saveRequests
        (snd (handleClassificationComplete exampleEnv (boundaryEvent True) (afterFirstSignal exampleEnv))))
     = [1, 2] \<and>
   map endMessageId
     (saveRequests
        (snd (handleClassificationComplete exampleEnv (boundaryEvent True) (afterFirstSignal exampleEnv))))
     = [''m3'', ''m3''] \<and>
   calls (snd (handleClassificationComplete guardedEnv (boundaryEvent True) (afterFirstSignal guardedEnv)))
     = [SummarizeCall, ExtractCall, SummarizeCall, ExtractCall] \<and>
   map number
     (saveRequests
        (snd (handleClassificationComplete guardedEnv (boundaryEvent True) (afterFirstSignal guardedEnv))))
     = [1, 2] \<and>
   map endMessageId
     (saveRequests
        (snd (handleClassificationComplete guardedEnv (boundaryEvent True) (afterFirstSignal guardedEnv))))
     = [''m3'', ''m3'']"
  by (simp add: handleClassificationComplete_def andThen_apply resolve_def createChapter_unfold Let_def
        chapterStart_def getLastChapterEnd_def newChapter_def boundaryEvent_def storyWorld_def
        exampleEnv_def guardedEnv_def exampleMetadata_def getMessagesSinceLastChapter_def
        messagesSinceLastChapter_def storyMessage_def afterFirstSignal_def)

section \<open>Chapter Index: contiguity\<close>

lemma appendChapter_numbered:
  "numbered index \<Longrightarrow> numbered (snd (appendChapter chapter index))"
  by (auto simp: numbered_def appendChapter_def inSequence_def nth_append)

lemma appendChapter_adjoining:
  "adjoining index \<Longrightarrow> adjoining (snd (appendChapter chapter index))"
proof (cases "inSequence chapter index")
  case False
  assume "adjoining index"
  with False show ?thesis by (simp add: appendChapter_def)
next
  case True
  assume adj: "adjoining index"
  show ?thesis
    unfolding adjoining_def
  proof (intro allI impI)
    fix i
    assume i: "Suc i < length (snd (appendChapter chapter index))"
    with True have bound: "Suc i < Suc (length index)" by (simp add: appendChapter_def)
    show "endTurn (snd (appendChapter chapter index) ! i) + 1
            = startTurn (snd (appendChapter chapter index) ! Suc i)"
    proof (cases "Suc i < length index")
      case True
      with adj \<open>inSequence chapter index\<close> show ?thesis
        by (simp add: appendChapter_def adjoining_def nth_append)
    next
      case False
      with bound have at_end: "Suc i = length index" by simp
      then have nonempty: "index \<noteq> []" by auto
      have "index ! i = last index"
        by (metis at_end diff_Suc_1 last_conv_nth nonempty)
      with \<open>inSequence chapter index\<close> at_end nonempty show ?thesis
        by (simp add: appendChapter_def inSequence_def nth_append)
    qed
  qed
qed

lemma appendAll_invariant:
  "numbered index \<Longrightarrow> adjoining index \<Longrightarrow>
   numbered (appendAll cs index) \<and> adjoining (appendAll cs index)"
  by (induction cs arbitrary: index) (simp_all add: appendChapter_numbered appendChapter_adjoining)

text \<open>
  C1. After any sequence of append operations on an empty index, each accepted or
  refused, the chapters are numbered 1 .. count and each chapter's end turn is followed
  immediately by the next chapter's start turn. An append whose chapter is not numbered
  count + 1, or does not start right after the last chapter's end, fails with
  OutOfSequence and leaves the index as it was; any other append adds the chapter at the
  end.
\<close>

theorem chapter_index_contiguity:
  "(\<forall>i < length (appendAll cs []). entry_number (appendAll cs [] ! i) = i + 1) \<and>
   (\<forall>i. Suc i < length (appendAll cs []) \<longrightarrow>
        endTurn (appendAll cs [] ! i) + 1 = startTurn (appendAll cs [] ! Suc i)) \<and>
   (\<forall>chapter index.
        (entry_number chapter \<noteq> length index + 1 \<or>
         (index \<noteq> [] \<and> startTurn chapter \<noteq> endTurn (last index) + 1)) \<longrightarrow>
        appendChapter chapter index = (Inl OutOfSequence, index)) \<and>
   (\<forall>chapter index.
        entry_number chapter = length index + 1 \<and>
        (index = [] \<or> startTurn chapter = endTurn (last index) + 1) \<longrightarrow>
        appendChapter chapter index = (Inr (), index @ [chapter]))"
proof -
  have "numbered []" "adjoining []" by (simp_all add: numbered_def adjoining_def)
  then have "numbered (appendAll cs []) \<and> adjoining (appendAll cs [])"
    by (rule appendAll_invariant)
  then show ?thesis
    by (auto simp: numbered_def adjoining_def appendChapter_def inSequence_def)
qed

theorem chapter_index_contiguity_witness:
  "appendAll [entry 1 1 50, entry 2 51 90, entry 3 95 120, entry 2 91 120, entry 3 91 120] []
     = [entry 1 1 50, entry 2 51 90, entry 3 91 120] \<and>
   appendChapter (entry 3 95 120) [entry 1 1 50, entry 2 51 90]
     = (Inl OutOfSequence, [entry 1 1 50, entry 2 51 90]) \<and>
   appendChapter (entry 3 91 120) [entry 1 1 50, entry 2 51 90]
     = (Inr (), [entry 1 1 50, entry 2 51 90, entry 3 91 120])"
  using chapter_index_contiguity
          [of "[entry 1 1 50, entry 2 51 90, entry 3 95 120, entry 2 91 120, entry 3 91 120]"]
  by (simp add: appendChapter_def inSequence_def entry_def)

section \<open>Range queries: the whole range is sent\<close>









end
